theory Spec2Isabelle
  imports Main "HOL-Library.AList"
begin

section \<open>Python values, dictionaries and JSON texts\<close>

text \<open>
  The values that \<^verbatim>\<open>wallet.py\<close> stores and passes around are those of the JSON data
  model: \<^verbatim>\<open>None\<close>, booleans, integers, strings, lists and dictionaries with string
  keys. Floating point numbers are left out.

  A dictionary is an association list in insertion order, read with \<open>map_of\<close>: the first
  entry of a key is the entry of the dictionary.
\<close>

datatype pyval =
    PNone
  | PBool bool
  | PInt int
  | PStr string
  | PList "pyval list"
  | PDict "(string \<times> pyval) list"

type_synonym dict = "(string \<times> pyval) list"

text \<open>Truth value testing, as \<^verbatim>\<open>if x:\<close> and \<^verbatim>\<open>x or y\<close> do it.\<close>

fun truthy :: "pyval \<Rightarrow> bool" where
  "truthy PNone = False"
| "truthy (PBool b) = b"
| "truthy (PInt i) = (i \<noteq> 0)"
| "truthy (PStr s) = (s \<noteq> [])"
| "truthy (PList xs) = (xs \<noteq> [])"
| "truthy (PDict kvs) = (kvs \<noteq> [])"

text \<open>
  The exceptions that can leave a method of \<^verbatim>\<open>Wallet\<close>. \<^verbatim>\<open>IndyError\<close> carries the
  SDK's error code; of the codes only \<^verbatim>\<open>ErrorCode.WalletAlreadyExistsError\<close> is
  named in the source. All of them are subclasses of \<^verbatim>\<open>Exception\<close>.
\<close>

datatype ErrorCode = WalletAlreadyExistsError | OtherErrorCode nat

datatype exn =
    IndyError ErrorCode
  | AttributeError string
  | NameError string
  | KeyError string
  | TypeError
  | JSONDecodeError
  | OtherException string

text \<open>\<^verbatim>\<open>k in d\<close>, \<^verbatim>\<open>d.pop(k)\<close> for a key that is present, \<^verbatim>\<open>d.get(k, default)\<close>.\<close>

definition dict_in :: "string \<Rightarrow> dict \<Rightarrow> bool" where
  "dict_in k d = (k \<in> set (map fst d))"

definition dict_pop :: "string \<Rightarrow> dict \<Rightarrow> dict" where
  "dict_pop k d = AList.delete k d"

definition dict_get :: "dict \<Rightarrow> string \<Rightarrow> pyval \<Rightarrow> pyval" where
  "dict_get d k dflt = (case map_of d k of Some v \<Rightarrow> v | None \<Rightarrow> dflt)"

text \<open>
  \<^verbatim>\<open>x[k]\<close> for a string \<open>k\<close>: a dictionary raises \<^verbatim>\<open>KeyError\<close> on a missing key, every
  other value raises \<^verbatim>\<open>TypeError\<close>.
\<close>

fun subscript :: "pyval \<Rightarrow> string \<Rightarrow> exn + pyval" where
  "subscript (PDict kvs) k = (case map_of kvs k of Some v \<Rightarrow> Inr v | None \<Rightarrow> Inl (KeyError k))"
| "subscript _ k = Inl TypeError"

text \<open>
  \<^verbatim>\<open>json.dumps\<close> and \<^verbatim>\<open>json.loads\<close> belong to the standard library. A JSON text is
  represented by the value it encodes, so \<open>json_loads\<close> inverts \<open>json_dumps\<close> as the
  library does on values of \<^typ>\<open>pyval\<close>; a text that encodes no value is \<open>Malformed\<close>.
\<close>

datatype json_text = JsonText pyval | Malformed string

definition json_dumps :: "pyval \<Rightarrow> json_text" where
  "json_dumps v = JsonText v"

fun json_loads :: "json_text \<Rightarrow> exn + pyval" where
  "json_loads (JsonText v) = Inr v"
| "json_loads (Malformed s) = Inl JSONDecodeError"

section \<open>The indy-sdk\<close>

text \<open>
  The SDK (\<^verbatim>\<open>indy.wallet\<close>, \<^verbatim>\<open>indy.did\<close>) is outside the repository: it is a parameter
  of every method, a record of functions on an SDK state \<open>'b\<close> that either raise or
  return. The arguments are those of the call sites in \<^verbatim>\<open>wallet.py\<close>.
\<close>

record 'b indy =
  create_wallet ::
    "string \<Rightarrow> string \<Rightarrow> string option \<Rightarrow> json_text option \<Rightarrow> string option \<Rightarrow> 'b
      \<Rightarrow> (exn + unit) \<times> 'b"
  open_wallet :: "string \<Rightarrow> json_text option \<Rightarrow> string option \<Rightarrow> 'b \<Rightarrow> (exn + int) \<times> 'b"
  close_wallet :: "int option \<Rightarrow> 'b \<Rightarrow> (exn + unit) \<times> 'b"
  delete_wallet :: "string \<Rightarrow> string option \<Rightarrow> 'b \<Rightarrow> (exn + unit) \<times> 'b"
  create_and_store_my_did :: "int option \<Rightarrow> json_text \<Rightarrow> 'b \<Rightarrow> (exn + string \<times> string) \<times> 'b"
  get_my_did_with_meta :: "int option \<Rightarrow> string \<Rightarrow> 'b \<Rightarrow> (exn + json_text) \<times> 'b"
  list_my_dids_with_meta :: "int option \<Rightarrow> 'b \<Rightarrow> (exn + json_text) \<times> 'b"

text \<open>The calls made to the SDK are recorded, oldest first, with their arguments.\<close>

datatype call =
    CreateWallet string string "string option" "json_text option" "string option"
  | OpenWallet string "json_text option" "string option"
  | CloseWallet "int option"
  | DeleteWallet string "string option"
  | CreateAndStoreMyDid "int option" json_text
  | GetMyDidWithMeta "int option" string
  | ListMyDidsWithMeta "int option"

section \<open>Objects\<close>

text \<open>
  A \<^verbatim>\<open>Wallet\<close> object holds its configuration by reference, and \<^verbatim>\<open>open\<close> mutates a
  dictionary. Objects therefore live in a store, one list per class, and an address is an
  index into it. A fresh object is appended, so it never aliases an older one.
\<close>

type_synonym addr = nat

record Wallet =
  pool_name :: string
  name :: string
  handle :: "int option"
  cfg :: addr
  did :: pyval
  verkey :: pyval

record 'b world =
  wallets :: "Wallet list"
  dicts :: "dict list"
  sdk :: 'b
  calls :: "call list"

definition new_dict :: "dict \<Rightarrow> 'b world \<Rightarrow> addr \<times> 'b world" where
  "new_dict d s = (length (dicts s), s\<lparr>dicts := dicts s @ [d]\<rparr>)"

text \<open>An \<^verbatim>\<open>await\<close> of an SDK function: the SDK state advances and the call is recorded.\<close>

definition await_create_wallet ::
  "'b indy \<Rightarrow> string \<Rightarrow> string \<Rightarrow> string option \<Rightarrow> json_text option \<Rightarrow> string option
    \<Rightarrow> 'b world \<Rightarrow> (exn + unit) \<times> 'b world" where
  "await_create_wallet be p n x c cr s =
     (let (r, b) = create_wallet be p n x c cr (sdk s)
      in (r, s\<lparr>sdk := b, calls := calls s @ [CreateWallet p n x c cr]\<rparr>))"

definition await_open_wallet ::
  "'b indy \<Rightarrow> string \<Rightarrow> json_text option \<Rightarrow> string option \<Rightarrow> 'b world \<Rightarrow> (exn + int) \<times> 'b world" where
  "await_open_wallet be n c cr s =
     (let (r, b) = open_wallet be n c cr (sdk s)
      in (r, s\<lparr>sdk := b, calls := calls s @ [OpenWallet n c cr]\<rparr>))"

definition await_close_wallet ::
  "'b indy \<Rightarrow> int option \<Rightarrow> 'b world \<Rightarrow> (exn + unit) \<times> 'b world" where
  "await_close_wallet be h s =
     (let (r, b) = close_wallet be h (sdk s)
      in (r, s\<lparr>sdk := b, calls := calls s @ [CloseWallet h]\<rparr>))"

definition await_delete_wallet ::
  "'b indy \<Rightarrow> string \<Rightarrow> string option \<Rightarrow> 'b world \<Rightarrow> (exn + unit) \<times> 'b world" where
  "await_delete_wallet be n cr s =
     (let (r, b) = delete_wallet be n cr (sdk s)
      in (r, s\<lparr>sdk := b, calls := calls s @ [DeleteWallet n cr]\<rparr>))"

definition await_create_and_store_my_did ::
  "'b indy \<Rightarrow> int option \<Rightarrow> json_text \<Rightarrow> 'b world \<Rightarrow> (exn + string \<times> string) \<times> 'b world" where
  "await_create_and_store_my_did be h j s =
     (let (r, b) = create_and_store_my_did be h j (sdk s)
      in (r, s\<lparr>sdk := b, calls := calls s @ [CreateAndStoreMyDid h j]\<rparr>))"

definition await_get_my_did_with_meta ::
  "'b indy \<Rightarrow> int option \<Rightarrow> string \<Rightarrow> 'b world \<Rightarrow> (exn + json_text) \<times> 'b world" where
  "await_get_my_did_with_meta be h d s =
     (let (r, b) = get_my_did_with_meta be h d (sdk s)
      in (r, s\<lparr>sdk := b, calls := calls s @ [GetMyDidWithMeta h d]\<rparr>))"

definition await_list_my_dids_with_meta ::
  "'b indy \<Rightarrow> int option \<Rightarrow> 'b world \<Rightarrow> (exn + json_text) \<times> 'b world" where
  "await_list_my_dids_with_meta be h s =
     (let (r, b) = list_my_dids_with_meta be h (sdk s)
      in (r, s\<lparr>sdk := b, calls := calls s @ [ListMyDidsWithMeta h]\<rparr>))"

section \<open>The class Wallet\<close>

text \<open>
  Every method takes the SDK, \<^verbatim>\<open>self\<close> and the world, and returns the exception it
  raises (\<open>Inl\<close>) or its value (\<open>Inr\<close>), with the world it leaves behind. The logging
  subsystem is not modelled; of a logging statement only the evaluation of its message
  remains, which is where \<^verbatim>\<open>open\<close> and \<^verbatim>\<open>remove\<close> can raise.
\<close>

text \<open>
  \<^verbatim>\<open>__init__(self, pool_name, name, cfg=None)\<close>: \<^verbatim>\<open>self._cfg = cfg or {}\<close> keeps the
  caller's dictionary when it is non-empty and makes a new empty one otherwise.
\<close>

definition Wallet_init :: "string \<Rightarrow> string \<Rightarrow> addr option \<Rightarrow> 'b world \<Rightarrow> addr \<times> 'b world" where
  "Wallet_init pool nm cfg_arg s =
     (let (c, s1) =
            (case cfg_arg of
               None \<Rightarrow> new_dict [] s
             | Some a \<Rightarrow> if truthy (PDict (dicts s ! a)) then (a, s) else new_dict [] s);
          w = \<lparr>pool_name = pool, name = nm, handle = None, cfg = c, did = PNone, verkey = PNone\<rparr>
      in (length (wallets s1), s1\<lparr>wallets := wallets s1 @ [w]\<rparr>))"

text \<open>
  \<^verbatim>\<open>open\<close>. The local \<^verbatim>\<open>cfg\<close> is the object that \<^verbatim>\<open>json.loads\<close> makes; a dumped
  dictionary loads as a dictionary, and the two branches for anything else exist only
  because a \<open>case\<close> is total. In the handler of \<^verbatim>\<open>IndyError\<close>, the message of
  \<^verbatim>\<open>logger.error\<close> reads \<^verbatim>\<open>self.e.error_code\<close>; a \<^verbatim>\<open>Wallet\<close> has no attribute \<^verbatim>\<open>e\<close>,
  so evaluating it raises \<^verbatim>\<open>AttributeError\<close> before the \<^verbatim>\<open>raise\<close> is reached.
  Both SDK calls are given \<^verbatim>\<open>json.dumps(cfg) if cfg else None\<close>, here \<open>dumps_or_None\<close>.
\<close>

definition dumps_or_None :: "dict \<Rightarrow> json_text option" where
  "dumps_or_None d = (if truthy (PDict d) then Some (json_dumps (PDict d)) else None)"

definition Wallet_open :: "'b indy \<Rightarrow> addr \<Rightarrow> 'b world \<Rightarrow> (exn + addr) \<times> 'b world" where
  "Wallet_open be self s =
     (case json_loads (json_dumps (PDict (dicts s ! cfg (wallets s ! self)))) of
        Inl e \<Rightarrow> (Inl e, s)
      | Inr v \<Rightarrow>
          (case v of
             PDict d \<Rightarrow>
               (let (c, s1) = new_dict d s;
                    s2 = (if dict_in ''auto_remove'' (dicts s1 ! c)
                          then s1\<lparr>dicts := (dicts s1)[c := dict_pop ''auto_remove'' (dicts s1 ! c)]\<rparr>
                          else s1);
                    (r, s3) = await_create_wallet be
                                (pool_name (wallets s2 ! self))
                                (name (wallets s2 ! self))
                                None
                                (dumps_or_None (dicts s2 ! c))
                                None s2;
                    raised = (case r of
                                Inr _ \<Rightarrow> None
                              | Inl e \<Rightarrow>
                                  (case e of
                                     IndyError code \<Rightarrow>
                                       if code = WalletAlreadyExistsError then None
                                       else Some (AttributeError ''e'')
                                   | _ \<Rightarrow> Some e))
                in case raised of
                     Some e \<Rightarrow> (Inl e, s3)
                   | None \<Rightarrow>
                       (let (r', s4) = await_open_wallet be
                                         (name (wallets s3 ! self))
                                         (dumps_or_None (dicts s3 ! c))
                                         None s3
                        in case r' of
                             Inl e \<Rightarrow> (Inl e, s4)
                           | Inr h \<Rightarrow>
                               (Inr self,
                                s4\<lparr>wallets := (wallets s4)
                                     [self := (wallets s4 ! self)\<lparr>handle := Some h\<rparr>]\<rparr>)))
           | _ \<Rightarrow> (Inl TypeError, s)))"

text \<open>\<^verbatim>\<open>__aenter__\<close> returns what \<^verbatim>\<open>open\<close> returns.\<close>

definition Wallet_aenter :: "'b indy \<Rightarrow> addr \<Rightarrow> 'b world \<Rightarrow> (exn + addr) \<times> 'b world" where
  "Wallet_aenter be self s = Wallet_open be self s"

text \<open>
  \<^verbatim>\<open>remove\<close>. The module does not import \<^verbatim>\<open>sys\<close>, so the message of the handler's
  \<^verbatim>\<open>logger.info\<close>, which reads \<^verbatim>\<open>sys.exc_info()\<close>, raises \<^verbatim>\<open>NameError\<close>.
\<close>

definition Wallet_remove :: "'b indy \<Rightarrow> addr \<Rightarrow> 'b world \<Rightarrow> (exn + unit) \<times> 'b world" where
  "Wallet_remove be self s =
     (let (r, s1) = await_delete_wallet be (name (wallets s ! self)) None s
      in case r of
           Inl e \<Rightarrow> (Inl (NameError ''sys''), s1)
         | Inr _ \<Rightarrow> (Inr (), s1))"

text \<open>\<^verbatim>\<open>close\<close>.\<close>

definition Wallet_close :: "'b indy \<Rightarrow> addr \<Rightarrow> 'b world \<Rightarrow> (exn + unit) \<times> 'b world" where
  "Wallet_close be self s =
     (let (r, s1) = await_close_wallet be (handle (wallets s ! self)) s
      in case r of
           Inl e \<Rightarrow> (Inl e, s1)
         | Inr _ \<Rightarrow>
             (let auto_remove =
                    dict_get (dicts s1 ! cfg (wallets s1 ! self)) ''auto_remove'' (PBool False)
              in if truthy auto_remove then Wallet_remove be self s1 else (Inr (), s1)))"

text \<open>\<^verbatim>\<open>__aexit__\<close> ignores its arguments and closes.\<close>

definition Wallet_aexit :: "'b indy \<Rightarrow> addr \<Rightarrow> 'b world \<Rightarrow> (exn + unit) \<times> 'b world" where
  "Wallet_aexit be self s = Wallet_close be self s"

text \<open>
  \<^verbatim>\<open>create_did(self, did=None, seed=None, cid=False)\<close>. The tuple assignment happens
  after the SDK has returned; an exception leaves both attributes as they were.
\<close>

definition opt_str :: "string option \<Rightarrow> pyval" where
  "opt_str x = (case x of None \<Rightarrow> PNone | Some t \<Rightarrow> PStr t)"

definition Wallet_create_did ::
  "'b indy \<Rightarrow> addr \<Rightarrow> string option \<Rightarrow> string option \<Rightarrow> bool \<Rightarrow> 'b world
    \<Rightarrow> (exn + pyval) \<times> 'b world" where
  "Wallet_create_did be self did_arg seed cid s =
     (let identity_config =
            [(''did'', opt_str did_arg), (''seed'', opt_str seed), (''cid'', PBool cid)];
          (r, s1) = await_create_and_store_my_did be
                      (handle (wallets s ! self)) (json_dumps (PDict identity_config)) s
      in case r of
           Inl e \<Rightarrow> (Inl e, s1)
         | Inr (d, vk) \<Rightarrow>
             (let s2 = s1\<lparr>wallets := (wallets s1)
                            [self := (wallets s1 ! self)\<lparr>did := PStr d, verkey := PStr vk\<rparr>]\<rparr>
              in (Inr (did (wallets s2 ! self)), s2)))"

text \<open>
  \<^verbatim>\<open>load_did(self, did)\<close>. The two attributes are assigned one after the other, each
  from a subscript that can raise.
\<close>

definition Wallet_load_did ::
  "'b indy \<Rightarrow> addr \<Rightarrow> string \<Rightarrow> 'b world \<Rightarrow> (exn + pyval) \<times> 'b world" where
  "Wallet_load_did be self did_arg s =
     (let (r, s1) = await_get_my_did_with_meta be (handle (wallets s ! self)) did_arg s
      in case r of
           Inl e \<Rightarrow> (Inl e, s1)
         | Inr did_json \<Rightarrow>
             (case json_loads did_json of
                Inl e \<Rightarrow> (Inl e, s1)
              | Inr did_info \<Rightarrow>
                  (case subscript did_info ''did'' of
                     Inl e \<Rightarrow> (Inl e, s1)
                   | Inr d \<Rightarrow>
                       (let s2 = s1\<lparr>wallets := (wallets s1)
                                      [self := (wallets s1 ! self)\<lparr>did := d\<rparr>]\<rparr>
                        in case subscript did_info ''verkey'' of
                             Inl e \<Rightarrow> (Inl e, s2)
                           | Inr vk \<Rightarrow>
                               (let s3 = s2\<lparr>wallets := (wallets s2)
                                              [self := (wallets s2 ! self)\<lparr>verkey := vk\<rparr>]\<rparr>
                                in (Inr (did (wallets s3 ! self)), s3))))))"

text \<open>\<^verbatim>\<open>stored_dids\<close>.\<close>

definition Wallet_stored_dids :: "'b indy \<Rightarrow> addr \<Rightarrow> 'b world \<Rightarrow> (exn + pyval) \<times> 'b world" where
  "Wallet_stored_dids be self s =
     (let (r, s1) = await_list_my_dids_with_meta be (handle (wallets s ! self)) s
      in case r of
           Inl e \<Rightarrow> (Inl e, s1)
         | Inr did_json \<Rightarrow>
             (case json_loads did_json of
                Inl e \<Rightarrow> (Inl e, s1)
              | Inr v \<Rightarrow> (Inr v, s1)))"

section \<open>An SDK in memory\<close>

text \<open>
  A stand-in for the SDK on which the methods can be run: wallets are kept by name with
  their identities in creation order, sessions by handle. An identity is derived from the
  seed alone, so the same seed gives the same pair.
\<close>

record vault =
  stored :: "(string \<times> (string \<times> string) list) list"
  sessions :: "(int \<times> string) list"
  next_handle :: int

definition identity_record :: "string \<times> string \<Rightarrow> pyval" where
  "identity_record p = PDict [(''did'', PStr (fst p)), (''verkey'', PStr (snd p)), (''metadata'', PNone)]"

definition mem_create_wallet ::
  "string \<Rightarrow> string \<Rightarrow> string option \<Rightarrow> json_text option \<Rightarrow> string option \<Rightarrow> vault
    \<Rightarrow> (exn + unit) \<times> vault" where
  "mem_create_wallet p n x c cr v =
     (if n \<in> set (map fst (stored v)) then (Inl (IndyError WalletAlreadyExistsError), v)
      else (Inr (), v\<lparr>stored := stored v @ [(n, [])]\<rparr>))"

definition mem_open_wallet ::
  "string \<Rightarrow> json_text option \<Rightarrow> string option \<Rightarrow> vault \<Rightarrow> (exn + int) \<times> vault" where
  "mem_open_wallet n c cr v =
     (if n \<in> set (map fst (stored v))
      then (Inr (next_handle v),
            v\<lparr>sessions := sessions v @ [(next_handle v, n)], next_handle := next_handle v + 1\<rparr>)
      else (Inl (IndyError (OtherErrorCode 204)), v))"

definition mem_close_wallet :: "int option \<Rightarrow> vault \<Rightarrow> (exn + unit) \<times> vault" where
  "mem_close_wallet h v =
     (case h of
        None \<Rightarrow> (Inl (IndyError (OtherErrorCode 200)), v)
      | Some i \<Rightarrow>
          if i \<in> set (map fst (sessions v))
          then (Inr (), v\<lparr>sessions := AList.delete i (sessions v)\<rparr>)
          else (Inl (IndyError (OtherErrorCode 200)), v))"

definition mem_delete_wallet :: "string \<Rightarrow> string option \<Rightarrow> vault \<Rightarrow> (exn + unit) \<times> vault" where
  "mem_delete_wallet n cr v =
     (if n \<in> set (map fst (stored v))
      then (Inr (), v\<lparr>stored := AList.delete n (stored v)\<rparr>)
      else (Inl (IndyError (OtherErrorCode 204)), v))"

definition session_wallet :: "int option \<Rightarrow> vault \<Rightarrow> (string \<times> (string \<times> string) list) option" where
  "session_wallet h v =
     (case h of
        None \<Rightarrow> None
      | Some i \<Rightarrow>
          (case map_of (sessions v) i of
             None \<Rightarrow> None
           | Some n \<Rightarrow> (case map_of (stored v) n of None \<Rightarrow> None | Some ids \<Rightarrow> Some (n, ids))))"

definition mem_create_and_store_my_did ::
  "int option \<Rightarrow> json_text \<Rightarrow> vault \<Rightarrow> (exn + string \<times> string) \<times> vault" where
  "mem_create_and_store_my_did h j v =
     (case session_wallet h v of
        None \<Rightarrow> (Inl (IndyError (OtherErrorCode 200)), v)
      | Some (n, ids) \<Rightarrow>
          (case json_loads j of
             Inr (PDict kvs) \<Rightarrow>
               (let sd = (case map_of kvs ''seed'' of Some (PStr t) \<Rightarrow> t | _ \<Rightarrow> ''random'');
                    p = (''did:'' @ sd, ''verkey:'' @ sd)
                in (Inr p,
                    v\<lparr>stored := AList.update n (if p \<in> set ids then ids else ids @ [p]) (stored v)\<rparr>))
           | _ \<Rightarrow> (Inl (IndyError (OtherErrorCode 113)), v)))"

definition mem_get_my_did_with_meta ::
  "int option \<Rightarrow> string \<Rightarrow> vault \<Rightarrow> (exn + json_text) \<times> vault" where
  "mem_get_my_did_with_meta h d v =
     (case session_wallet h v of
        None \<Rightarrow> (Inl (IndyError (OtherErrorCode 200)), v)
      | Some (n, ids) \<Rightarrow>
          (case map_of ids d of
             None \<Rightarrow> (Inl (IndyError (OtherErrorCode 212)), v)
           | Some vk \<Rightarrow> (Inr (json_dumps (identity_record (d, vk))), v)))"

definition mem_list_my_dids_with_meta :: "int option \<Rightarrow> vault \<Rightarrow> (exn + json_text) \<times> vault" where
  "mem_list_my_dids_with_meta h v =
     (case session_wallet h v of
        None \<Rightarrow> (Inl (IndyError (OtherErrorCode 200)), v)
      | Some (n, ids) \<Rightarrow> (Inr (json_dumps (PList (map identity_record ids))), v))"

definition mem_sdk :: "vault indy" where
  "mem_sdk =
     \<lparr>create_wallet = mem_create_wallet,
      open_wallet = mem_open_wallet,
      close_wallet = mem_close_wallet,
      delete_wallet = mem_delete_wallet,
      create_and_store_my_did = mem_create_and_store_my_did,
      get_my_did_with_meta = mem_get_my_did_with_meta,
      list_my_dids_with_meta = mem_list_my_dids_with_meta\<rparr>"

definition empty_vault :: vault where
  "empty_vault = \<lparr>stored = [], sessions = [], next_handle = 1\<rparr>"

text \<open>
  Worlds to run the methods in: one \<^verbatim>\<open>Wallet\<close> at address 0 whose configuration is
  the dictionary at address 0, on an SDK that holds the given vault.
\<close>

definition one_wallet :: "dict \<Rightarrow> vault \<Rightarrow> vault world" where
  "one_wallet d v =
     \<lparr>wallets = [\<lparr>pool_name = ''pool'', name = ''my-wallet'', handle = None, cfg = 0,
                  did = PNone, verkey = PNone\<rparr>],
      dicts = [d], sdk = v, calls = []\<rparr>"

text \<open>A vault in which the wallet \<^verbatim>\<open>my-wallet\<close> has been created before.\<close>

definition existing_vault :: vault where
  "existing_vault = \<lparr>stored = [(''my-wallet'', [])], sessions = [], next_handle = 1\<rparr>"

text \<open>
  An SDK whose storage fails: \<^verbatim>\<open>create_wallet\<close> raises an input/output error.
\<close>

definition io_error_sdk :: "vault indy" where
  "io_error_sdk = mem_sdk\<lparr>create_wallet := (\<lambda>p n x c cr v. (Inl (IndyError (OtherErrorCode 114)), v))\<rparr>"

text \<open>
  A world without objects, and the worlds that the test suite walks through: the wallet
  opened, and two identities created from the seeds \<^verbatim>\<open>0000\<close> and \<^verbatim>\<open>1111\<close>.
\<close>

definition no_objects :: "'b \<Rightarrow> 'b world" where
  "no_objects b = \<lparr>wallets = [], dicts = [], sdk = b, calls = []\<rparr>"

definition opened :: "vault world" where
  "opened = snd (Wallet_open mem_sdk 0 (one_wallet [] empty_vault))"

definition two_identities :: "vault world" where
  "two_identities =
     snd (Wallet_create_did mem_sdk 0 None (Some ''1111'') False
       (snd (Wallet_create_did mem_sdk 0 None (Some ''0000'') False opened)))"

text \<open>
  The wallet is opened with \<^verbatim>\<open>auto_remove\<close> set, and its stored data is removed while
  it is open.
\<close>

definition removed_while_open :: "vault world" where
  "removed_while_open =
     snd (Wallet_remove mem_sdk 0
       (snd (Wallet_open mem_sdk 0 (one_wallet [(''auto_remove'', PBool True)] empty_vault))))"

section \<open>The methods, step by step\<close>

lemmas await_defs = await_create_wallet_def await_open_wallet_def await_close_wallet_def
  await_delete_wallet_def await_create_and_store_my_did_def await_get_my_did_with_meta_def
  await_list_my_dids_with_meta_def

lemmas mem_defs = mem_sdk_def mem_create_wallet_def mem_open_wallet_def mem_close_wallet_def
  mem_delete_wallet_def mem_create_and_store_my_did_def mem_get_my_did_with_meta_def
  mem_list_my_dids_with_meta_def session_wallet_def identity_record_def empty_vault_def
  existing_vault_def one_wallet_def

lemma delete_absent: "k \<notin> set (map fst d) \<Longrightarrow> AList.delete k d = d"
  by (induction d) auto

lemma strip_eq:
  "(if dict_in k d then dict_pop k d else d) = AList.delete k d"
  by (simp add: dict_in_def dict_pop_def delete_absent)

lemma delete_filter: "AList.delete k xs = filter (\<lambda>kv. fst kv \<noteq> k) xs"
  by (induction xs) auto

lemma Wallet_init_unfold:
  "Wallet_init p n c s =
     (let keep = (case c of None \<Rightarrow> False | Some a \<Rightarrow> dicts s ! a \<noteq> []);
          w = \<lparr>pool_name = p, name = n, handle = None,
               cfg = (if keep then the c else length (dicts s)), did = PNone, verkey = PNone\<rparr>
      in (length (wallets s),
          s\<lparr>wallets := wallets s @ [w],
            dicts := (if keep then dicts s else dicts s @ [[]])\<rparr>))"
  by (simp add: Wallet_init_def new_dict_def Let_def split: option.splits)

text \<open>
  \<^verbatim>\<open>open\<close> in terms of the two SDK calls: the copy of the configuration without
  \<^verbatim>\<open>auto_remove\<close> is the new last dictionary of the store.
\<close>

lemma Wallet_open_unfold:
  "Wallet_open be self s =
     (let w = wallets s ! self;
          d = AList.delete ''auto_remove'' (dicts s ! cfg w);
          c = dumps_or_None d;
          cr = create_wallet be (pool_name w) (name w) None c None (sdk s);
          s3 = s\<lparr>dicts := dicts s @ [d], sdk := snd cr,
                 calls := calls s @ [CreateWallet (pool_name w) (name w) None c None]\<rparr>;
          op = open_wallet be (name w) c None (snd cr);
          s4 = s3\<lparr>sdk := snd op, calls := calls s3 @ [OpenWallet (name w) c None]\<rparr>;
          proceed = (case fst op of
                       Inl e \<Rightarrow> (Inl e, s4)
                     | Inr h \<Rightarrow> (Inr self, s4\<lparr>wallets := (wallets s)[self := w\<lparr>handle := Some h\<rparr>]\<rparr>))
      in case fst cr of
           Inr _ \<Rightarrow> proceed
         | Inl e \<Rightarrow>
             (case e of
                IndyError code \<Rightarrow>
                  if code = WalletAlreadyExistsError then proceed
                  else (Inl (AttributeError ''e''), s3)
              | _ \<Rightarrow> (Inl e, s3)))"
proof -
  let ?w = "wallets s ! self"
  let ?orig = "dicts s ! cfg ?w"
  let ?d = "AList.delete ''auto_remove'' ?orig"
  let ?c = "dumps_or_None ?d"
  obtain r b where cr: "create_wallet be (pool_name ?w) (name ?w) None ?c None (sdk s) = (r, b)"
    by (cases "create_wallet be (pool_name ?w) (name ?w) None ?c None (sdk s)") 
  obtain r' b' where op: "open_wallet be (name ?w) ?c None b = (r', b')"
    by (cases "open_wallet be (name ?w) ?c None b")
  have pop: "(if dict_in ''auto_remove'' ?orig then dict_pop ''auto_remove'' ?orig else ?orig) = ?d"
    by (rule strip_eq)
  show ?thesis
  proof (cases "dict_in ''auto_remove'' ?orig")
    case True
    with pop have d: "dict_pop ''auto_remove'' ?orig = ?d" by simp
    show ?thesis
      unfolding Wallet_open_def
      using True cr op
      apply (cases r)
      subgoal for e
        apply (cases e)
        apply (simp_all add: json_dumps_def new_dict_def await_defs d Let_def split: sum.splits)
        done
      subgoal
        apply (simp add: json_dumps_def new_dict_def await_defs d Let_def split: sum.splits)
        done
      done
  next
    case False
    with pop have d: "?orig = ?d" by simp
    show ?thesis
      unfolding Wallet_open_def
      using False cr op
      apply (cases r)
      subgoal for e
        apply (cases e)
        apply (simp_all add: json_dumps_def new_dict_def await_defs d[symmetric] Let_def split: sum.splits)
        done
      subgoal
        apply (simp add: json_dumps_def new_dict_def await_defs d[symmetric] Let_def split: sum.splits)
        done
      done
  qed
qed

lemma Wallet_remove_unfold:
  "Wallet_remove be self s =
     (let w = wallets s ! self;
          dl = delete_wallet be (name w) None (sdk s);
          s1 = s\<lparr>sdk := snd dl, calls := calls s @ [DeleteWallet (name w) None]\<rparr>
      in case fst dl of Inl e \<Rightarrow> (Inl (NameError ''sys''), s1) | Inr _ \<Rightarrow> (Inr (), s1))"
  unfolding Wallet_remove_def await_delete_wallet_def
  by (simp add: Let_def split_def split: sum.splits)

lemma Wallet_close_unfold:
  "Wallet_close be self s =
     (let w = wallets s ! self;
          cl = close_wallet be (handle w) (sdk s);
          s1 = s\<lparr>sdk := snd cl, calls := calls s @ [CloseWallet (handle w)]\<rparr>;
          dl = delete_wallet be (name w) None (snd cl);
          s2 = s1\<lparr>sdk := snd dl, calls := calls s1 @ [DeleteWallet (name w) None]\<rparr>
      in case fst cl of
           Inl e \<Rightarrow> (Inl e, s1)
         | Inr _ \<Rightarrow>
             if truthy (dict_get (dicts s ! cfg w) ''auto_remove'' (PBool False))
             then (case fst dl of Inl e \<Rightarrow> (Inl (NameError ''sys''), s2) | Inr _ \<Rightarrow> (Inr (), s2))
             else (Inr (), s1))"
  unfolding Wallet_close_def Wallet_remove_def await_close_wallet_def await_delete_wallet_def
  by (simp add: Let_def split_def split: sum.splits)

lemma Wallet_create_did_unfold:
  "Wallet_create_did be self dd sd cid s =
     (let w = wallets s ! self;
          j = json_dumps (PDict [(''did'', opt_str dd), (''seed'', opt_str sd), (''cid'', PBool cid)]);
          cr = create_and_store_my_did be (handle w) j (sdk s);
          s1 = s\<lparr>sdk := snd cr, calls := calls s @ [CreateAndStoreMyDid (handle w) j]\<rparr>
      in case fst cr of
           Inl e \<Rightarrow> (Inl e, s1)
         | Inr p \<Rightarrow>
             (Inr (did (((wallets s)[self := w\<lparr>did := PStr (fst p), verkey := PStr (snd p)\<rparr>]) ! self)),
              s1\<lparr>wallets := (wallets s)[self := w\<lparr>did := PStr (fst p), verkey := PStr (snd p)\<rparr>]\<rparr>))"
  unfolding Wallet_create_did_def await_create_and_store_my_did_def
  by (simp add: Let_def split_def split: sum.splits)

lemma Wallet_load_did_unfold:
  "Wallet_load_did be self dd s =
     (let w = wallets s ! self;
          g = get_my_did_with_meta be (handle w) dd (sdk s);
          s1 = s\<lparr>sdk := snd g, calls := calls s @ [GetMyDidWithMeta (handle w) dd]\<rparr>
      in case fst g of
           Inl e \<Rightarrow> (Inl e, s1)
         | Inr did_json \<Rightarrow>
             (case json_loads did_json of
                Inl e \<Rightarrow> (Inl e, s1)
              | Inr did_info \<Rightarrow>
                  (case subscript did_info ''did'' of
                     Inl e \<Rightarrow> (Inl e, s1)
                   | Inr d \<Rightarrow>
                       (case subscript did_info ''verkey'' of
                          Inl e \<Rightarrow> (Inl e, s1\<lparr>wallets := (wallets s)[self := w\<lparr>did := d\<rparr>]\<rparr>)
                        | Inr vk \<Rightarrow>
                            (Inr (did (((wallets s)[self := w\<lparr>did := d, verkey := vk\<rparr>]) ! self)),
                             s1\<lparr>wallets := (wallets s)[self := w\<lparr>did := d, verkey := vk\<rparr>]\<rparr>)))))"
  unfolding Wallet_load_did_def await_get_my_did_with_meta_def
  apply (cases "self < length (wallets s)")
   apply (simp_all add: Let_def split_def list_update_beyond split: sum.splits)
  done

lemma Wallet_stored_dids_unfold:
  "Wallet_stored_dids be self s =
     (let w = wallets s ! self;
          l = list_my_dids_with_meta be (handle w) (sdk s);
          s1 = s\<lparr>sdk := snd l, calls := calls s @ [ListMyDidsWithMeta (handle w)]\<rparr>
      in case fst l of
           Inl e \<Rightarrow> (Inl e, s1)
         | Inr did_json \<Rightarrow>
             (case json_loads did_json of Inl e \<Rightarrow> (Inl e, s1) | Inr v \<Rightarrow> (Inr v, s1)))"
  unfolding Wallet_stored_dids_def await_list_my_dids_with_meta_def
  by (simp add: Let_def split_def split: sum.splits)

lemma open_dicts:
  "dicts (snd (Wallet_open be self s)) =
     dicts s @ [AList.delete ''auto_remove'' (dicts s ! cfg (wallets s ! self))]"
  by (simp add: Wallet_open_unfold Let_def split: sum.splits exn.splits)

lemma open_wallets:
  "wallets (snd (Wallet_open be self s)) = wallets s \<or>
   (\<exists>h. fst (Wallet_open be self s) = Inr self \<and>
      wallets (snd (Wallet_open be self s)) = (wallets s)[self := (wallets s ! self)\<lparr>handle := Some h\<rparr>])"
  by (auto simp add: Wallet_open_unfold Let_def split: sum.splits exn.splits)

lemma open_success:
  "fst (Wallet_open be self s) = Inr a \<Longrightarrow>
   a = self \<and> (\<exists>h. wallets (snd (Wallet_open be self s)) = (wallets s)[self := (wallets s ! self)\<lparr>handle := Some h\<rparr>])"
  by (auto simp add: Wallet_open_unfold Let_def split: sum.splits exn.splits if_splits)

lemma open_calls:
  "calls (snd (Wallet_open be self s)) =
     calls s @ [CreateWallet (pool_name (wallets s ! self)) (name (wallets s ! self)) None
                  (dumps_or_None (AList.delete ''auto_remove'' (dicts s ! cfg (wallets s ! self)))) None] \<or>
   calls (snd (Wallet_open be self s)) =
     calls s @ [CreateWallet (pool_name (wallets s ! self)) (name (wallets s ! self)) None
                  (dumps_or_None (AList.delete ''auto_remove'' (dicts s ! cfg (wallets s ! self)))) None,
                OpenWallet (name (wallets s ! self))
                  (dumps_or_None (AList.delete ''auto_remove'' (dicts s ! cfg (wallets s ! self)))) None]"
  by (simp add: Wallet_open_unfold Let_def split: sum.splits exn.splits)

lemma close_wallets: "wallets (snd (Wallet_close be self s)) = wallets s"
  by (simp add: Wallet_close_unfold Let_def split: sum.splits)

lemma close_dicts: "dicts (snd (Wallet_close be self s)) = dicts s"
  by (simp add: Wallet_close_unfold Let_def split: sum.splits)

text \<open>
  The worlds of the test suite, computed.
\<close>

lemma opened_eq:
  "opened =
     \<lparr>wallets = [\<lparr>pool_name = ''pool'', name = ''my-wallet'', handle = Some 1, cfg = 0,
                  did = PNone, verkey = PNone\<rparr>],
      dicts = [[], []],
      sdk = \<lparr>stored = [(''my-wallet'', [])], sessions = [(1, ''my-wallet'')], next_handle = 2\<rparr>,
      calls = [CreateWallet ''pool'' ''my-wallet'' None None None,
               OpenWallet ''my-wallet'' None None]\<rparr>"
  by (simp add: opened_def Wallet_open_unfold Let_def mem_defs dumps_or_None_def)

lemma two_identities_eq:
  "two_identities =
     \<lparr>wallets = [\<lparr>pool_name = ''pool'', name = ''my-wallet'', handle = Some 1, cfg = 0,
                  did = PStr ''did:1111'', verkey = PStr ''verkey:1111''\<rparr>],
      dicts = [[], []],
      sdk = \<lparr>stored = [(''my-wallet'', [(''did:0000'', ''verkey:0000''), (''did:1111'', ''verkey:1111'')])],
              sessions = [(1, ''my-wallet'')], next_handle = 2\<rparr>,
      calls = [CreateWallet ''pool'' ''my-wallet'' None None None,
               OpenWallet ''my-wallet'' None None,
               CreateAndStoreMyDid (Some 1)
                 (json_dumps (PDict [(''did'', PNone), (''seed'', PStr ''0000''), (''cid'', PBool False)])),
               CreateAndStoreMyDid (Some 1)
                 (json_dumps (PDict [(''did'', PNone), (''seed'', PStr ''1111''), (''cid'', PBool False)]))]\<rparr>"
  by (simp add: two_identities_def opened_eq Wallet_create_did_unfold Let_def mem_defs
      opt_str_def json_dumps_def)

lemma removed_while_open_eq:
  "removed_while_open =
     \<lparr>wallets = [\<lparr>pool_name = ''pool'', name = ''my-wallet'', handle = Some 1, cfg = 0,
                  did = PNone, verkey = PNone\<rparr>],
      dicts = [[(''auto_remove'', PBool True)], []],
      sdk = \<lparr>stored = [], sessions = [(1, ''my-wallet'')], next_handle = 2\<rparr>,
      calls = [CreateWallet ''pool'' ''my-wallet'' None None None,
               OpenWallet ''my-wallet'' None None,
               DeleteWallet ''my-wallet'' None]\<rparr>"
  by (simp add: removed_while_open_def Wallet_open_unfold Wallet_remove_unfold Let_def mem_defs
      dumps_or_None_def)

section \<open>Opening\<close>

text \<open>
  C1. When \<^verbatim>\<open>create_wallet\<close> raises \<^verbatim>\<open>IndyError\<close> with the code
  \<^verbatim>\<open>WalletAlreadyExistsError\<close>, \<^verbatim>\<open>open\<close> does not raise: it goes on to call
  \<^verbatim>\<open>open_wallet\<close> with the same name and configuration, and when that returns the
  handle \<open>h\<close> it stores \<open>h\<close> in the object and returns \<^verbatim>\<open>self\<close>. Nothing else of
  the object changes; the store gains the stripped copy of the configuration.
\<close>

theorem open_existing_wallet:
  fixes be :: "'b indy" and s :: "'b world" and self :: addr
  defines "w \<equiv> wallets s ! self"
  defines "d \<equiv> filter (\<lambda>kv. fst kv \<noteq> ''auto_remove'') (dicts s ! cfg w)"
  defines "c \<equiv> (if d = [] then None else Some (json_dumps (PDict d)))"
  assumes "self < length (wallets s)"
    and "create_wallet be (pool_name w) (name w) None c None (sdk s)
             = (Inl (IndyError WalletAlreadyExistsError), b1)"
    and "open_wallet be (name w) c None b1 = (Inr h, b2)"
  shows "Wallet_open be self s =
           (Inr self,
            \<lparr>wallets = (wallets s)[self := w\<lparr>handle := Some h\<rparr>],
             dicts = dicts s @ [d],
             sdk = b2,
             calls = calls s @ [CreateWallet (pool_name w) (name w) None c None,
                                OpenWallet (name w) c None]\<rparr>)
         \<and> handle (wallets (snd (Wallet_open be self s)) ! self) = Some h"
proof -
  have d: "AList.delete ''auto_remove'' (dicts s ! cfg (wallets s ! self)) = d"
    by (simp add: d_def w_def delete_filter)
  have c: "dumps_or_None d = c"
    by (simp add: c_def dumps_or_None_def)
  show ?thesis
    using assms(4-) unfolding w_def
    by (simp add: Wallet_open_unfold Let_def d c)
qed

text \<open>
  The wallet \<^verbatim>\<open>my-wallet\<close> exists already in the vault; its configuration has
  \<^verbatim>\<open>auto_remove\<close> and one more entry.
\<close>

theorem open_existing_wallet_witness:
  "0 < length (wallets (one_wallet [(''auto_remove'', PBool True), (''k'', PInt 1)] existing_vault))
   \<and> create_wallet mem_sdk ''pool'' ''my-wallet'' None (Some (json_dumps (PDict [(''k'', PInt 1)]))) None
         existing_vault = (Inl (IndyError WalletAlreadyExistsError), existing_vault)
   \<and> open_wallet mem_sdk ''my-wallet'' (Some (json_dumps (PDict [(''k'', PInt 1)]))) None existing_vault
       = (Inr 1, existing_vault\<lparr>sessions := [(1, ''my-wallet'')], next_handle := 2\<rparr>)
   \<and> fst (Wallet_open mem_sdk 0 (one_wallet [(''auto_remove'', PBool True), (''k'', PInt 1)] existing_vault)) = Inr 0
   \<and> handle (wallets (snd (Wallet_open mem_sdk 0
        (one_wallet [(''auto_remove'', PBool True), (''k'', PInt 1)] existing_vault))) ! 0) = Some 1"
  using open_existing_wallet [where be = mem_sdk and self = 0
      and s = "one_wallet [(''auto_remove'', PBool True), (''k'', PInt 1)] existing_vault"
      and ?b1.0 = existing_vault and h = 1
      and ?b2.0 = "existing_vault\<lparr>sessions := [(1, ''my-wallet'')], next_handle := 2\<rparr>"]
  by (simp add: mem_defs existing_vault_def)

text \<open>
  C3. When \<^verbatim>\<open>create_wallet\<close> raises \<^verbatim>\<open>IndyError\<close> with any other code, \<^verbatim>\<open>open\<close>
  stops before \<^verbatim>\<open>open_wallet\<close>, but what reaches the caller is not the SDK's error: the
  handler raises \<^verbatim>\<open>AttributeError\<close> while it builds its log message.
\<close>

theorem open_create_failure_raises_AttributeError:
  fixes be :: "'b indy" and s :: "'b world" and self :: addr
  defines "w \<equiv> wallets s ! self"
  defines "d \<equiv> filter (\<lambda>kv. fst kv \<noteq> ''auto_remove'') (dicts s ! cfg w)"
  defines "c \<equiv> (if d = [] then None else Some (json_dumps (PDict d)))"
  assumes "create_wallet be (pool_name w) (name w) None c None (sdk s)
             = (Inl (IndyError (OtherErrorCode n)), b)"
  shows "Wallet_open be self s =
           (Inl (AttributeError ''e''),
            s\<lparr>dicts := dicts s @ [d], sdk := b,
              calls := calls s @ [CreateWallet (pool_name w) (name w) None c None]\<rparr>)"
proof -
  have d: "AList.delete ''auto_remove'' (dicts s ! cfg (wallets s ! self)) = d"
    by (simp add: d_def w_def delete_filter)
  have c: "dumps_or_None d = c"
    by (simp add: c_def dumps_or_None_def)
  show ?thesis
    using assms(4) unfolding w_def
    by (simp add: Wallet_open_unfold Let_def d c)
qed

text \<open>
  On the SDK whose storage fails, the caller sees \<^verbatim>\<open>AttributeError\<close> and not the
  \<^verbatim>\<open>IndyError\<close> with code 114.
\<close>

theorem open_create_failure_raises_AttributeError_witness:
  "create_wallet io_error_sdk ''pool'' ''my-wallet'' None None None empty_vault
     = (Inl (IndyError (OtherErrorCode 114)), empty_vault)
   \<and> fst (Wallet_open io_error_sdk 0 (one_wallet [] empty_vault)) = Inl (AttributeError ''e'')
   \<and> fst (Wallet_open io_error_sdk 0 (one_wallet [] empty_vault))
       \<noteq> Inl (IndyError (OtherErrorCode 114))"
  using open_create_failure_raises_AttributeError [where be = io_error_sdk and self = 0
      and s = "one_wallet [] empty_vault" and n = 114 and b = empty_vault]
  by (simp add: mem_defs io_error_sdk_def)

text \<open>
  C5, as stated, at a configuration that holds only \<^verbatim>\<open>auto_remove\<close>: what
  \<^verbatim>\<open>create_wallet\<close> is given is \<^verbatim>\<open>None\<close>, not the dump of the empty configuration
  that remains.
\<close>

theorem open_empty_config_counterexample:
  "hd (calls (snd (Wallet_open mem_sdk 0 (one_wallet [(''auto_remove'', PBool True)] empty_vault))))
     = CreateWallet ''pool'' ''my-wallet'' None None None
   \<and> hd (calls (snd (Wallet_open mem_sdk 0 (one_wallet [(''auto_remove'', PBool True)] empty_vault))))
     \<noteq> CreateWallet ''pool'' ''my-wallet'' None
          (Some (json_dumps (PDict (filter (\<lambda>kv. fst kv \<noteq> ''auto_remove'')
             [(''auto_remove'', PBool True)])))) None"
  by (simp add: Wallet_open_unfold Let_def mem_defs dumps_or_None_def)

text \<open>
  C5, amended. \<^verbatim>\<open>open\<close> calls \<^verbatim>\<open>create_wallet\<close> and then, unless it raises,
  \<^verbatim>\<open>open_wallet\<close>, and makes no other call. Both are given the same configuration
  argument: the dump of the stored configuration without its \<^verbatim>\<open>auto_remove\<close> entry, the
  other entries unchanged and in order, or \<^verbatim>\<open>None\<close> when no other entry remains. The
  key \<^verbatim>\<open>auto_remove\<close> is not in what is dumped.
\<close>

theorem open_config_sent:
  fixes be :: "'b indy" and s :: "'b world" and self :: addr
  defines "w \<equiv> wallets s ! self"
  defines "d \<equiv> filter (\<lambda>kv. fst kv \<noteq> ''auto_remove'') (dicts s ! cfg w)"
  defines "c \<equiv> (if d = [] then None else Some (json_dumps (PDict d)))"
  shows "(calls (snd (Wallet_open be self s)) =
            calls s @ [CreateWallet (pool_name w) (name w) None c None] \<or>
          calls (snd (Wallet_open be self s)) =
            calls s @ [CreateWallet (pool_name w) (name w) None c None,
                       OpenWallet (name w) c None])
         \<and> \<not> dict_in ''auto_remove'' d"
proof -
  have d: "AList.delete ''auto_remove'' (dicts s ! cfg (wallets s ! self)) = d"
    by (simp add: d_def w_def delete_filter)
  have c: "dumps_or_None d = c"
    by (simp add: c_def dumps_or_None_def)
  have "\<not> dict_in ''auto_remove'' d"
    by (auto simp: dict_in_def d_def)
  then show ?thesis
    using open_calls [of be self s] unfolding d c w_def by simp
qed

theorem open_config_sent_witness:
  "calls (snd (Wallet_open mem_sdk 0
      (one_wallet [(''auto_remove'', PBool True), (''k'', PInt 1)] empty_vault))) =
     [CreateWallet ''pool'' ''my-wallet'' None (Some (json_dumps (PDict [(''k'', PInt 1)]))) None,
      OpenWallet ''my-wallet'' (Some (json_dumps (PDict [(''k'', PInt 1)]))) None]
   \<and> \<not> dict_in ''auto_remove'' [(''k'', PInt 1)]"
  using open_config_sent [where be = mem_sdk and self = 0
      and s = "one_wallet [(''auto_remove'', PBool True), (''k'', PInt 1)] empty_vault"]
  by (simp add: Wallet_open_unfold Let_def mem_defs dumps_or_None_def dict_in_def)

text \<open>
  C10. \<^verbatim>\<open>open\<close>, whatever its outcome, leaves the object's reference to its
  configuration and the dictionary it refers to as they were, as every older dictionary of
  the store: \<^verbatim>\<open>auto_remove\<close> is popped from the copy, which is a new object. A
  \<^verbatim>\<open>close\<close> that follows therefore reads the original value \<open>v\<close> of
  \<^verbatim>\<open>auto_remove\<close>: it calls \<^verbatim>\<open>close_wallet\<close> and then \<^verbatim>\<open>delete_wallet\<close> exactly
  when \<^verbatim>\<open>close_wallet\<close> returned and \<open>v\<close> is true.
\<close>

theorem open_keeps_stored_cfg:
  fixes be :: "'b indy" and s :: "'b world" and self :: addr
  defines "w \<equiv> wallets s ! self"
  defines "s' \<equiv> snd (Wallet_open be self s)"
  assumes "self < length (wallets s)" and "cfg w < length (dicts s)"
    and "map_of (dicts s ! cfg w) ''auto_remove'' = Some v"
  shows "cfg (wallets s' ! self) = cfg w
         \<and> dicts s' ! cfg w = dicts s ! cfg w
         \<and> take (length (dicts s)) (dicts s') = dicts s
         \<and> calls (snd (Wallet_close be self s')) =
             calls s' @ CloseWallet (handle (wallets s' ! self)) #
               (if fst (close_wallet be (handle (wallets s' ! self)) (sdk s')) = Inr () \<and> truthy v
                then [DeleteWallet (name w) None] else [])"
proof -
  have ws: "cfg (wallets s' ! self) = cfg w" "name (wallets s' ! self) = name w"
    using open_wallets [of be self s] assms(3) unfolding s'_def w_def by auto
  have ds: "dicts s' = dicts s @ [AList.delete ''auto_remove'' (dicts s ! cfg w)]"
    unfolding s'_def w_def by (rule open_dicts)
  have cell: "dicts s' ! cfg w = dicts s ! cfg w"
    using assms(4) by (simp add: ds nth_append)
  have get: "dict_get (dicts s' ! cfg w) ''auto_remove'' (PBool False) = v"
    using assms(5) by (simp add: cell dict_get_def)
  have "calls (snd (Wallet_close be self s')) =
             calls s' @ CloseWallet (handle (wallets s' ! self)) #
               (if fst (close_wallet be (handle (wallets s' ! self)) (sdk s')) = Inr () \<and> truthy v
                then [DeleteWallet (name w) None] else [])"
    by (simp add: Wallet_close_unfold Let_def get ws split: sum.splits)
  then show ?thesis
    using ws cell by (simp add: ds)
qed

theorem open_keeps_stored_cfg_witness:
  "0 < length (wallets (one_wallet [(''auto_remove'', PBool True)] empty_vault))
   \<and> cfg (wallets (one_wallet [(''auto_remove'', PBool True)] empty_vault) ! 0)
       < length (dicts (one_wallet [(''auto_remove'', PBool True)] empty_vault))
   \<and> map_of (dicts (one_wallet [(''auto_remove'', PBool True)] empty_vault) ! 0) ''auto_remove''
       = Some (PBool True)
   \<and> dicts (snd (Wallet_open mem_sdk 0 (one_wallet [(''auto_remove'', PBool True)] empty_vault))) ! 0
       = [(''auto_remove'', PBool True)]
   \<and> calls (snd (Wallet_close mem_sdk 0
         (snd (Wallet_open mem_sdk 0 (one_wallet [(''auto_remove'', PBool True)] empty_vault))))) =
       [CreateWallet ''pool'' ''my-wallet'' None None None, OpenWallet ''my-wallet'' None None,
        CloseWallet (Some 1), DeleteWallet ''my-wallet'' None]"
  using open_keeps_stored_cfg [where be = mem_sdk and self = 0
      and s = "one_wallet [(''auto_remove'', PBool True)] empty_vault" and v = "PBool True"]
  by (simp add: Wallet_open_unfold Let_def mem_defs dumps_or_None_def)

section \<open>Closing and removing\<close>

text \<open>
  C2. When \<^verbatim>\<open>delete_wallet\<close> raises, \<^verbatim>\<open>remove\<close> does not return: the handler's log
  message reads \<^verbatim>\<open>sys.exc_info()\<close> in a module that never imports \<^verbatim>\<open>sys\<close>, and the
  \<^verbatim>\<open>NameError\<close> reaches the caller.
\<close>

theorem remove_failure_propagates:
  assumes "delete_wallet be (name (wallets s ! self)) None (sdk s) = (Inl e, b)"
  shows "Wallet_remove be self s =
           (Inl (NameError ''sys''),
            s\<lparr>sdk := b, calls := calls s @ [DeleteWallet (name (wallets s ! self)) None]\<rparr>)"
  using assms by (simp add: Wallet_remove_unfold Let_def)

text \<open>
  Removing a wallet that was never created: the SDK reports that there is nothing to
  remove, and \<^verbatim>\<open>remove\<close> raises.
\<close>

theorem remove_failure_propagates_witness:
  "delete_wallet mem_sdk ''my-wallet'' None empty_vault
     = (Inl (IndyError (OtherErrorCode 204)), empty_vault)
   \<and> fst (Wallet_remove mem_sdk 0 (one_wallet [] empty_vault)) = Inl (NameError ''sys'')"
  using remove_failure_propagates [where be = mem_sdk and self = 0
      and s = "one_wallet [] empty_vault" and e = "IndyError (OtherErrorCode 204)"
      and b = empty_vault]
  by (simp add: mem_defs)

text \<open>
  C6. With \<^verbatim>\<open>auto_remove\<close> true, \<^verbatim>\<open>close\<close> closes the session and calls
  \<^verbatim>\<open>delete_wallet\<close>; when that raises, \<^verbatim>\<open>close\<close> raises as well, with the
  \<^verbatim>\<open>NameError\<close> of \<^verbatim>\<open>remove\<close>.
\<close>

theorem close_removal_failure_propagates:
  fixes be :: "'b indy" and s :: "'b world" and self :: addr
  defines "w \<equiv> wallets s ! self"
  assumes "close_wallet be (handle w) (sdk s) = (Inr (), b1)"
    and "truthy (dict_get (dicts s ! cfg w) ''auto_remove'' (PBool False))"
    and "delete_wallet be (name w) None b1 = (Inl e, b2)"
  shows "Wallet_close be self s =
           (Inl (NameError ''sys''),
            s\<lparr>sdk := b2, calls := calls s @ [CloseWallet (handle w), DeleteWallet (name w) None]\<rparr>)"
  using assms(2-) unfolding w_def
  by (simp add: Wallet_close_unfold Let_def)

text \<open>
  After \<^verbatim>\<open>open\<close> and \<^verbatim>\<open>remove\<close>, the session closes and the second removal
  fails.
\<close>

theorem close_removal_failure_propagates_witness:
  "close_wallet mem_sdk (Some 1) (sdk removed_while_open)
     = (Inr (), \<lparr>stored = [], sessions = [], next_handle = 2\<rparr>)
   \<and> truthy (dict_get (dicts removed_while_open ! 0) ''auto_remove'' (PBool False))
   \<and> delete_wallet mem_sdk ''my-wallet'' None \<lparr>stored = [], sessions = [], next_handle = 2\<rparr>
       = (Inl (IndyError (OtherErrorCode 204)), \<lparr>stored = [], sessions = [], next_handle = 2\<rparr>)
   \<and> fst (Wallet_close mem_sdk 0 removed_while_open) = Inl (NameError ''sys'')"
  using close_removal_failure_propagates [where be = mem_sdk and self = 0
      and s = removed_while_open and e = "IndyError (OtherErrorCode 204)"
      and ?b1.0 = "\<lparr>stored = [], sessions = [], next_handle = 2\<rparr>"
      and ?b2.0 = "\<lparr>stored = [], sessions = [], next_handle = 2\<rparr>"]
  by (simp add: removed_while_open_eq mem_defs dict_get_def)

text \<open>
  C4, as stated, on the path of the test suite: constructed, opened and closed, the
  wallet still holds the handle of the closed session.
\<close>

theorem close_keeps_handle_counterexample:
  "fst (Wallet_close mem_sdk 0 (snd (Wallet_open mem_sdk 0
          (snd (Wallet_init ''pool'' ''my-wallet'' None (no_objects empty_vault)))))) = Inr ()
   \<and> handle (wallets (snd (Wallet_close mem_sdk 0 (snd (Wallet_open mem_sdk 0
          (snd (Wallet_init ''pool'' ''my-wallet'' None (no_objects empty_vault))))))) ! 0) \<noteq> None"
  by (simp add: Wallet_init_unfold Wallet_open_unfold Wallet_close_unfold Let_def no_objects_def
      mem_defs dumps_or_None_def dict_get_def)

text \<open>
  C4, amended. A wallet that \<^verbatim>\<open>__init__\<close> has just made holds no handle, and after
  an \<^verbatim>\<open>open\<close> that returns it holds one. \<^verbatim>\<open>close\<close> does not reset it: whatever
  its outcome, the handle is the one the wallet held before, so a handle that is not
  \<^verbatim>\<open>None\<close> does not tell that the wallet is open.
\<close>

theorem handle_lifecycle:
  assumes "self < length (wallets s)" and "fst (Wallet_open be self s) = Inr r"
  shows "handle (wallets (snd (Wallet_init p n c s0)) ! fst (Wallet_init p n c s0)) = None
         \<and> handle (wallets (snd (Wallet_open be self s)) ! self) \<noteq> None
         \<and> handle (wallets (snd (Wallet_close be' self' s1)) ! self') = handle (wallets s1 ! self')"
proof -
  have "handle (wallets (snd (Wallet_init p n c s0)) ! fst (Wallet_init p n c s0)) = None"
    by (simp add: Wallet_init_unfold Let_def)
  moreover have "handle (wallets (snd (Wallet_open be self s)) ! self) \<noteq> None"
    using open_success [OF assms(2)] assms(1) by auto
  moreover have "handle (wallets (snd (Wallet_close be' self' s1)) ! self') = handle (wallets s1 ! self')"
    by (simp add: close_wallets)
  ultimately show ?thesis by simp
qed

theorem handle_lifecycle_witness:
  "0 < length (wallets (one_wallet [] empty_vault))
   \<and> fst (Wallet_open mem_sdk 0 (one_wallet [] empty_vault)) = Inr 0
   \<and> handle (wallets (snd (Wallet_init ''pool'' ''my-wallet'' None (no_objects empty_vault))) ! 0) = None
   \<and> handle (wallets (snd (Wallet_open mem_sdk 0 (one_wallet [] empty_vault))) ! 0) \<noteq> None
   \<and> handle (wallets (snd (Wallet_close mem_sdk 0
         (snd (Wallet_open mem_sdk 0 (one_wallet [] empty_vault))))) ! 0) = Some 1"
  using handle_lifecycle [where be = mem_sdk and self = 0 and s = "one_wallet [] empty_vault"
      and r = 0 and p = "''pool''" and n = "''my-wallet''" and c = None
      and ?s0.0 = "no_objects empty_vault" and be' = mem_sdk and self' = 0
      and ?s1.0 = "snd (Wallet_open mem_sdk 0 (one_wallet [] empty_vault))"]
  by (simp add: Wallet_init_unfold Wallet_open_unfold Let_def no_objects_def
      mem_defs dumps_or_None_def)

section \<open>Identities\<close>

text \<open>
  C7. When \<^verbatim>\<open>create_and_store_my_did\<close> returns the pair \<open>(d, vk)\<close>,
  \<^verbatim>\<open>create_did\<close> returns \<open>d\<close>, and the wallet's \<^verbatim>\<open>did\<close> and \<^verbatim>\<open>verkey\<close> are
  \<open>d\<close> and \<open>vk\<close>; nothing else of the wallet changes.
\<close>

theorem create_did_sets_current:
  fixes be :: "'b indy" and s :: "'b world" and self :: addr
    and dd sd :: "string option" and cid :: bool
  defines "w \<equiv> wallets s ! self"
  defines "j \<equiv> json_dumps (PDict [(''did'', opt_str dd), (''seed'', opt_str sd), (''cid'', PBool cid)])"
  defines "s' \<equiv> snd (Wallet_create_did be self dd sd cid s)"
  assumes "self < length (wallets s)"
    and "create_and_store_my_did be (handle w) j (sdk s) = (Inr (d, vk), b)"
  shows "fst (Wallet_create_did be self dd sd cid s) = Inr (PStr d)
         \<and> did (wallets s' ! self) = PStr d
         \<and> verkey (wallets s' ! self) = PStr vk
         \<and> s' = s\<lparr>wallets := (wallets s)[self := w\<lparr>did := PStr d, verkey := PStr vk\<rparr>],
                  sdk := b, calls := calls s @ [CreateAndStoreMyDid (handle w) j]\<rparr>"
  using assms(4-) unfolding w_def j_def s'_def
  by (simp add: Wallet_create_did_unfold Let_def)

theorem create_did_sets_current_witness:
  "0 < length (wallets opened)
   \<and> create_and_store_my_did mem_sdk (Some 1)
        (json_dumps (PDict [(''did'', PNone), (''seed'', PStr ''0000''), (''cid'', PBool False)]))
        (sdk opened)
       = (Inr (''did:0000'', ''verkey:0000''),
          \<lparr>stored = [(''my-wallet'', [(''did:0000'', ''verkey:0000'')])],
           sessions = [(1, ''my-wallet'')], next_handle = 2\<rparr>)
   \<and> fst (Wallet_create_did mem_sdk 0 None (Some ''0000'') False opened) = Inr (PStr ''did:0000'')
   \<and> did (wallets (snd (Wallet_create_did mem_sdk 0 None (Some ''0000'') False opened)) ! 0)
       = PStr ''did:0000''
   \<and> verkey (wallets (snd (Wallet_create_did mem_sdk 0 None (Some ''0000'') False opened)) ! 0)
       = PStr ''verkey:0000''"
  using create_did_sets_current [where be = mem_sdk and self = 0 and s = opened
      and dd = None and sd = "Some ''0000''" and cid = False
      and d = "''did:0000''" and vk = "''verkey:0000''"
      and b = "\<lparr>stored = [(''my-wallet'', [(''did:0000'', ''verkey:0000'')])],
                sessions = [(1, ''my-wallet'')], next_handle = 2\<rparr>"]
  by (simp add: opened_eq mem_defs opt_str_def json_dumps_def Let_def)

text \<open>
  C8. Identity A is created, then identity B: the current pair is B's. When the SDK
  then answers \<^verbatim>\<open>get_my_did_with_meta\<close> for A's DID with A's record,
  \<^verbatim>\<open>load_did\<close> returns A's DID and the current pair is A's again; the only call
  \<^verbatim>\<open>load_did\<close> makes is that one, so no identity is created.
\<close>

theorem load_did_switches_back:
  fixes be :: "'b indy" and s :: "'b world" and self :: addr
    and da sa db sb :: "string option" and ca cb :: bool and dA :: string
  defines "h \<equiv> handle (wallets s ! self)"
  defines "ja \<equiv> json_dumps (PDict [(''did'', opt_str da), (''seed'', opt_str sa), (''cid'', PBool ca)])"
  defines "jb \<equiv> json_dumps (PDict [(''did'', opt_str db), (''seed'', opt_str sb), (''cid'', PBool cb)])"
  defines "s1 \<equiv> snd (Wallet_create_did be self da sa ca s)"
  defines "s2 \<equiv> snd (Wallet_create_did be self db sb cb s1)"
  defines "s3 \<equiv> snd (Wallet_load_did be self dA s2)"
  assumes live: "self < length (wallets s)"
    and A: "create_and_store_my_did be h ja (sdk s) = (Inr (dA, vA), b1)"
    and B: "create_and_store_my_did be h jb b1 = (Inr (dB, vB), b2)"
    and L: "get_my_did_with_meta be h dA b2 = (Inr (json_dumps (PDict info)), b3)"
    and I: "map_of info ''did'' = Some (PStr dA)" "map_of info ''verkey'' = Some (PStr vA)"
  shows "did (wallets s2 ! self) = PStr dB
         \<and> verkey (wallets s2 ! self) = PStr vB
         \<and> fst (Wallet_load_did be self dA s2) = Inr (PStr dA)
         \<and> did (wallets s3 ! self) = PStr dA
         \<and> verkey (wallets s3 ! self) = PStr vA
         \<and> calls s3 = calls s2 @ [GetMyDidWithMeta h dA]"
proof -
  have s1: "s1 = s\<lparr>wallets := (wallets s)[self := (wallets s ! self)\<lparr>did := PStr dA, verkey := PStr vA\<rparr>],
                   sdk := b1, calls := calls s @ [CreateAndStoreMyDid h ja]\<rparr>"
    using A unfolding s1_def h_def ja_def by (simp add: Wallet_create_did_unfold Let_def)
  have s2: "s2 = s1\<lparr>wallets := (wallets s)[self := (wallets s ! self)\<lparr>did := PStr dB, verkey := PStr vB\<rparr>],
                    sdk := b2, calls := calls s1 @ [CreateAndStoreMyDid h jb]\<rparr>"
    using B live unfolding s2_def by (simp add: s1 h_def jb_def Wallet_create_did_unfold Let_def)
  have cur2: "did (wallets s2 ! self) = PStr dB \<and> verkey (wallets s2 ! self) = PStr vB"
    using live by (simp add: s2)
  have h2: "handle (wallets s2 ! self) = h" "sdk s2 = b2"
    using live by (simp_all add: s2 h_def)
  have ld: "Wallet_load_did be self dA s2 =
              (Inr (PStr dA),
               s2\<lparr>sdk := b3, calls := calls s2 @ [GetMyDidWithMeta h dA],
                  wallets := (wallets s2)[self := (wallets s2 ! self)\<lparr>did := PStr dA, verkey := PStr vA\<rparr>]\<rparr>)"
    using L I live
    by (simp add: Wallet_load_did_unfold Let_def h2 json_dumps_def) (simp add: s2)
  show ?thesis
    using cur2 live unfolding s3_def ld by (simp add: s2)
qed

theorem load_did_switches_back_witness:
  "0 < length (wallets opened)
   \<and> create_and_store_my_did mem_sdk (Some 1)
        (json_dumps (PDict [(''did'', PNone), (''seed'', PStr ''0000''), (''cid'', PBool False)]))
        (sdk opened)
       = (Inr (''did:0000'', ''verkey:0000''),
          \<lparr>stored = [(''my-wallet'', [(''did:0000'', ''verkey:0000'')])],
           sessions = [(1, ''my-wallet'')], next_handle = 2\<rparr>)
   \<and> create_and_store_my_did mem_sdk (Some 1)
        (json_dumps (PDict [(''did'', PNone), (''seed'', PStr ''1111''), (''cid'', PBool False)]))
        \<lparr>stored = [(''my-wallet'', [(''did:0000'', ''verkey:0000'')])],
         sessions = [(1, ''my-wallet'')], next_handle = 2\<rparr>
       = (Inr (''did:1111'', ''verkey:1111''), sdk two_identities)
   \<and> get_my_did_with_meta mem_sdk (Some 1) ''did:0000'' (sdk two_identities)
       = (Inr (json_dumps (PDict [(''did'', PStr ''did:0000''), (''verkey'', PStr ''verkey:0000''),
                                 (''metadata'', PNone)])), sdk two_identities)
   \<and> did (wallets two_identities ! 0) = PStr ''did:1111''
   \<and> verkey (wallets two_identities ! 0) = PStr ''verkey:1111''
   \<and> fst (Wallet_load_did mem_sdk 0 ''did:0000'' two_identities) = Inr (PStr ''did:0000'')
   \<and> did (wallets (snd (Wallet_load_did mem_sdk 0 ''did:0000'' two_identities)) ! 0) = PStr ''did:0000''
   \<and> verkey (wallets (snd (Wallet_load_did mem_sdk 0 ''did:0000'' two_identities)) ! 0)
       = PStr ''verkey:0000''
   \<and> calls (snd (Wallet_load_did mem_sdk 0 ''did:0000'' two_identities))
       = calls two_identities @ [GetMyDidWithMeta (Some 1) ''did:0000'']"
  using load_did_switches_back [where be = mem_sdk and self = 0 and s = opened
      and da = None and sa = "Some ''0000''" and ca = False
      and db = None and sb = "Some ''1111''" and cb = False
      and dA = "''did:0000''" and vA = "''verkey:0000''"
      and dB = "''did:1111''" and vB = "''verkey:1111''"
      and ?b1.0 = "\<lparr>stored = [(''my-wallet'', [(''did:0000'', ''verkey:0000'')])],
                    sessions = [(1, ''my-wallet'')], next_handle = 2\<rparr>"
      and ?b2.0 = "sdk two_identities" and ?b3.0 = "sdk two_identities"
      and info = "[(''did'', PStr ''did:0000''), (''verkey'', PStr ''verkey:0000''),
                   (''metadata'', PNone)]"]
  unfolding two_identities_def [symmetric]
  by (simp add: opened_eq two_identities_eq mem_defs opt_str_def json_dumps_def Let_def)

text \<open>
  C9. \<^verbatim>\<open>stored_dids\<close> returns the value of the text that
  \<^verbatim>\<open>list_my_dids_with_meta\<close> returns, as it is, and changes no object: every wallet
  and every dictionary of the store is as before, and the one call made is the listing.
\<close>

theorem stored_dids_read_only:
  fixes be :: "'b indy" and s :: "'b world" and self :: addr
  defines "s' \<equiv> snd (Wallet_stored_dids be self s)"
  assumes "list_my_dids_with_meta be (handle (wallets s ! self)) (sdk s) = (Inr (json_dumps v), b)"
  shows "fst (Wallet_stored_dids be self s) = Inr v
         \<and> wallets s' = wallets s
         \<and> dicts s' = dicts s
         \<and> calls s' = calls s @ [ListMyDidsWithMeta (handle (wallets s ! self))]"
  using assms(2) unfolding s'_def
  by (simp add: Wallet_stored_dids_unfold Let_def json_dumps_def)

text \<open>
  With two identities stored, the listing has them in the order of their creation.
\<close>

theorem stored_dids_read_only_witness:
  "list_my_dids_with_meta mem_sdk (Some 1) (sdk two_identities)
     = (Inr (json_dumps (PList [identity_record (''did:0000'', ''verkey:0000''),
                               identity_record (''did:1111'', ''verkey:1111'')])),
        sdk two_identities)
   \<and> fst (Wallet_stored_dids mem_sdk 0 two_identities)
       = Inr (PList [identity_record (''did:0000'', ''verkey:0000''),
                     identity_record (''did:1111'', ''verkey:1111'')])
   \<and> wallets (snd (Wallet_stored_dids mem_sdk 0 two_identities)) = wallets two_identities
   \<and> dicts (snd (Wallet_stored_dids mem_sdk 0 two_identities)) = dicts two_identities"
  using stored_dids_read_only [where be = mem_sdk and self = 0 and s = two_identities
      and v = "PList [identity_record (''did:0000'', ''verkey:0000''),
                      identity_record (''did:1111'', ''verkey:1111'')]"
      and b = "sdk two_identities"]
  by (simp add: two_identities_eq mem_defs json_dumps_def)

end
